theory Spec2Isabelle
  imports Complex_Main
begin

section \<open>The calculation engine of src/App.js\<close>

text \<open>
  The engine of the RUPACAYA calculator is the arithmetic inside the \<^verbatim>\<open>App\<close> component:
  the table \<^verbatim>\<open>base\<close>, \<^verbatim>\<open>adjustedRatesFor\<close>, \<^verbatim>\<open>calcAll\<close>, the memoised \<^verbatim>\<open>corrPoints\<close>
  and the inflation block (\<^verbatim>\<open>ratioDanaPdb\<close>, \<^verbatim>\<open>tambahanInflasi\<close>, \<^verbatim>\<open>inflasiSimulasi\<close>).

  Numbers. A JavaScript number is a double. Here a finite number is a \<^typ>\<open>real\<close> and the
  arithmetic is exact: rounding and overflow of doubles are not part of the model. A number
  that may fail to be finite (the result of \<^verbatim>\<open>Math.pow\<close>) is a \<^typ>\<open>real option\<close>, with
  \<^const>\<open>None\<close> for \<^verbatim>\<open>NaN\<close> and the infinities. Rounding decides one property, the strict
  growth of the scenario values with the principal: for it the rates and the closure
  \<^verbatim>\<open>grow\<close> are modelled a second time, with every operation rounded to binary64.

  Inputs. \<^verbatim>\<open>modal\<close>, \<^verbatim>\<open>months\<close> and \<^verbatim>\<open>investors\<close> are
  \<^verbatim>\<open>Number(onlyDigits(s) || 0)\<close>: the value of a string of decimal digits, so a natural
  number. \<^verbatim>\<open>investment\<close> is a \<^typ>\<open>string\<close>: the instrument selector offers the empty
  string and the five keys of \<^verbatim>\<open>infoJenis\<close>, but \<^verbatim>\<open>adjustedRatesFor\<close> and \<^verbatim>\<open>calcAll\<close> are
  modelled on every string.
\<close>

subsection \<open>Rate table and what-if adjustment\<close>

record rates =
  opt :: real
  mod_r :: real
  pes :: real

text \<open>The field \<^verbatim>\<open>mod\<close> of the source is \<^const>\<open>mod_r\<close> here.

  The object literal \<^verbatim>\<open>base\<close>: its five own properties.\<close>

definition base :: "string \<Rightarrow> rates option" where
  "base type =
     (if type = ''saham'' then Some \<lparr>opt = 0.015, mod_r = 0.008, pes = -0.01\<rparr>
      else if type = ''obligasi'' then Some \<lparr>opt = 0.007, mod_r = 0.004, pes = -0.003\<rparr>
      else if type = ''deposito'' then Some \<lparr>opt = 0.004, mod_r = 0.003, pes = 0.002\<rparr>
      else if type = ''emas'' then Some \<lparr>opt = 0.006, mod_r = 0.004, pes = 0.0002\<rparr>
      else if type = ''reksadana'' then Some \<lparr>opt = 0.012, mod_r = 0.006, pes = -0.007\<rparr>
      else None)"

definition instruments :: "string list" where
  "instruments = [''saham'', ''obligasi'', ''deposito'', ''emas'', ''reksadana'']"

text \<open>
  The property access \<^verbatim>\<open>base[type]\<close>. \<^verbatim>\<open>base\<close> is a plain object, so a name that is not
  an own property is looked up in \<^verbatim>\<open>Object.prototype\<close>: there the access finds the
  inherited method (for \<^verbatim>\<open>__proto__\<close>, the prototype object itself), a value that is
  truthy and has no property \<^verbatim>\<open>opt\<close>, \<^verbatim>\<open>mod\<close> or \<^verbatim>\<open>pes\<close>. Every other name gives
  \<^verbatim>\<open>undefined\<close>.
\<close>

definition Object_prototype_names :: "string list" where
  "Object_prototype_names =
     [''constructor'', ''hasOwnProperty'', ''isPrototypeOf'', ''propertyIsEnumerable'',
      ''toLocaleString'', ''toString'', ''valueOf'', ''__proto__'', ''__defineGetter__'',
      ''__defineSetter__'', ''__lookupGetter__'', ''__lookupSetter__'']"

datatype lookup = Undefined | Own rates | Inherited

definition base_lookup :: "string \<Rightarrow> lookup" where
  "base_lookup type =
     (case base type of
        Some b \<Rightarrow> Own b
      | None \<Rightarrow> if type \<in> set Object_prototype_names then Inherited else Undefined)"

record adj_state =
  inflasiUp :: bool
  biDown :: bool
  ihsgUp :: bool

text \<open>The three blocks of \<^verbatim>\<open>adjustedRatesFor\<close>, each a run of independent
  \<^verbatim>\<open>if (type === ...) d += ...\<close> statements on the running scalar \<^verbatim>\<open>d\<close>.\<close>

definition inflasiUp_block :: "string \<Rightarrow> real \<Rightarrow> real" where
  "inflasiUp_block type d0 =
     (let d1 = (if type = ''saham'' then d0 - 0.002 else d0);
          d2 = (if type = ''obligasi'' then d1 - 0.001 else d1);
          d3 = (if type = ''deposito'' then d2 + 0.0005 else d2);
          d4 = (if type = ''emas'' then d3 + 0.001 else d3);
          d5 = (if type = ''reksadana'' then d4 - 0.001 else d4)
      in d5)"

definition biDown_block :: "string \<Rightarrow> real \<Rightarrow> real" where
  "biDown_block type d0 =
     (let d1 = (if type = ''saham'' then d0 + 0.0015 else d0);
          d2 = (if type = ''obligasi'' then d1 + 0.001 else d1);
          d3 = (if type = ''deposito'' then d2 - 0.0004 else d2);
          d4 = (if type = ''emas'' then d3 + 0.0002 else d3);
          d5 = (if type = ''reksadana'' then d4 + 0.001 else d4)
      in d5)"

definition ihsgUp_block :: "string \<Rightarrow> real \<Rightarrow> real" where
  "ihsgUp_block type d0 =
     (let d1 = (if type = ''saham'' then d0 + 0.002 else d0);
          d2 = (if type = ''reksadana'' then d1 + 0.0015 else d1);
          d3 = (if type = ''emas'' then d2 - 0.0005 else d2)
      in d3)"

text \<open>
  The value returned by \<^verbatim>\<open>adjustedRatesFor\<close>: \<^verbatim>\<open>null\<close> when \<^verbatim>\<open>b\<close> is \<^verbatim>\<open>undefined\<close>; an
  object with three finite rates when \<^verbatim>\<open>b\<close> is an entry of the table; and, when \<^verbatim>\<open>b\<close> is
  an inherited value, the object whose three fields are \<^verbatim>\<open>NaN\<close>, since \<^verbatim>\<open>b.opt\<close>,
  \<^verbatim>\<open>b.mod\<close> and \<^verbatim>\<open>b.pes\<close> are \<^verbatim>\<open>undefined\<close> and \<^verbatim>\<open>undefined + d\<close> is \<^verbatim>\<open>NaN\<close>.
\<close>

datatype adjusted = Null | NaN_rates | Rates rates

definition adjustedRatesFor :: "adj_state \<Rightarrow> string \<Rightarrow> adjusted" where
  "adjustedRatesFor adj type =
     (case base_lookup type of
        Undefined \<Rightarrow> Null
      | Inherited \<Rightarrow> NaN_rates
      | Own b \<Rightarrow>
          (let d0 = 0;
               d1 = (if inflasiUp adj then inflasiUp_block type d0 else d0);
               d2 = (if biDown adj then biDown_block type d1 else d1);
               d = (if ihsgUp adj then ihsgUp_block type d2 else d2)
           in Rates \<lparr>opt = opt b + d, mod_r = mod_r b + d, pes = pes b + d * 0.5\<rparr>))"

text \<open>The adjustment as the specification words it: a table of fixed deltas, one per
  toggle and instrument (zero where the instrument is not listed), summed over the
  active toggles.\<close>

datatype toggle = InflasiUp | BiDown | IhsgUp

definition spec_delta :: "toggle \<Rightarrow> string \<Rightarrow> real" where
  "spec_delta t type =
     (case t of
        InflasiUp \<Rightarrow>
          (if type = ''saham'' then - 0.002 else if type = ''obligasi'' then - 0.001
           else if type = ''deposito'' then 0.0005 else if type = ''emas'' then 0.001
           else if type = ''reksadana'' then - 0.001 else 0)
      | BiDown \<Rightarrow>
          (if type = ''saham'' then 0.0015 else if type = ''obligasi'' then 0.001
           else if type = ''deposito'' then - 0.0004 else if type = ''emas'' then 0.0002
           else if type = ''reksadana'' then 0.001 else 0)
      | IhsgUp \<Rightarrow>
          (if type = ''saham'' then 0.002 else if type = ''reksadana'' then 0.0015
           else if type = ''emas'' then - 0.0005 else 0))"

definition spec_active :: "adj_state \<Rightarrow> toggle list" where
  "spec_active adj =
     (if inflasiUp adj then [InflasiUp] else []) @
     (if biDown adj then [BiDown] else []) @
     (if ihsgUp adj then [IhsgUp] else [])"

definition spec_d :: "adj_state \<Rightarrow> string \<Rightarrow> real" where
  "spec_d adj type = sum_list (map (\<lambda>t. spec_delta t type) (spec_active adj))"

subsection \<open>Math.pow\<close>

text \<open>
  \<^verbatim>\<open>Math.pow(b, e)\<close> on finite arguments. A positive base gives the real power. For a base
  that is not positive the result is finite only in these cases: an integer exponent (the
  integer power; but \<^verbatim>\<open>Math.pow(0, e)\<close> is \<^verbatim>\<open>Infinity\<close> for negative \<^verbatim>\<open>e\<close>), and base
  zero with a positive exponent (zero). A negative base with a fractional exponent gives
  \<^verbatim>\<open>NaN\<close>.
\<close>

definition Math_pow :: "real \<Rightarrow> real \<Rightarrow> real option" where
  "Math_pow b e =
     (if 0 < b then Some (b powr e)
      else if b = 0 then (if e = 0 then Some 1 else if 0 < e then Some 0 else None)
      else if e = of_int \<lfloor>e\<rfloor> then Some (b powi \<lfloor>e\<rfloor>)
      else None)"

subsection \<open>calcAll\<close>

record scenario_result =
  optV :: "real option"
  modV :: "real option"
  pesV :: "real option"
  monthlyModeratePct :: "real option"
  annualModerate :: "real option"

record impact_result =
  totalDana :: real
  impactPct :: real

text \<open>\<^verbatim>\<open>macro.trxHarianBEI\<close>.\<close>

definition trxHarianBEI :: real where
  "trxHarianBEI = 25020000000000"

text \<open>The closure \<^verbatim>\<open>grow\<close> of \<^verbatim>\<open>calcAll\<close>: \<^verbatim>\<open>modal * Math.pow(1 + rate, months)\<close>.\<close>

definition grow :: "nat \<Rightarrow> nat \<Rightarrow> real \<Rightarrow> real option" where
  "grow modal months rate =
     map_option (\<lambda>p. real modal * p) (Math_pow (1 + rate) (real months))"

text \<open>The object passed to \<^verbatim>\<open>setResult\<close>, from the rates \<^verbatim>\<open>r\<close>. The divisions by
  \<^verbatim>\<open>modal\<close> and by \<^verbatim>\<open>months\<close> are reached only with both different from zero.\<close>

definition calcAll_result :: "rates \<Rightarrow> nat \<Rightarrow> nat \<Rightarrow> scenario_result" where
  "calcAll_result r modal months =
     (let optV' = grow modal months (opt r);
          modV' = grow modal months (mod_r r);
          pesV' = grow modal months (pes r);
          monthlyModeratePct' =
            map_option (\<lambda>p. (p - 1) * 100)
              (Option.bind (map_option (\<lambda>v. v / real modal) modV')
                 (\<lambda>q. Math_pow q (1 / real months)));
          annualModerate' =
            map_option (\<lambda>p. (p - 1) * 100) (Math_pow (1 + mod_r r) 12)
      in \<lparr>optV = optV', modV = modV', pesV = pesV',
          monthlyModeratePct = monthlyModeratePct', annualModerate = annualModerate'\<rparr>)"

text \<open>
  The same object when the three rates are \<^verbatim>\<open>NaN\<close> and \<^verbatim>\<open>months\<close> is not zero:
  \<^verbatim>\<open>1 + NaN\<close> is \<^verbatim>\<open>NaN\<close>, \<^verbatim>\<open>Math.pow(NaN, e)\<close> is \<^verbatim>\<open>NaN\<close> for every exponent other than
  zero, and a product, quotient or difference with \<^verbatim>\<open>NaN\<close> is \<^verbatim>\<open>NaN\<close>, so all five fields
  are \<^verbatim>\<open>NaN\<close>.
\<close>

definition calcAll_result_NaN :: scenario_result where
  "calcAll_result_NaN =
     \<lparr>optV = None, modV = None, pesV = None,
      monthlyModeratePct = None, annualModerate = None\<rparr>"

text \<open>The object passed to \<^verbatim>\<open>setImpact\<close>.\<close>

definition calcAll_impact :: "nat \<Rightarrow> nat \<Rightarrow> impact_result" where
  "calcAll_impact investors modal =
     (let totalDana' = real investors * real modal;
          impactPct' = 8 * (totalDana' / trxHarianBEI)
      in \<lparr>totalDana = totalDana', impactPct = impactPct'\<rparr>)"

subsection \<open>The correlation curve\<close>

record point =
  x :: real
  y :: real

text \<open>The sampled investor count \<^verbatim>\<open>inv\<close> and the percentage \<^verbatim>\<open>yPct\<close> of iteration
  \<^verbatim>\<open>i\<close>, before the clamp.\<close>

definition corr_inv :: "nat \<Rightarrow> nat \<Rightarrow> nat \<Rightarrow> real" where
  "corr_inv investors n i = (let frac = real i / real n in real investors * frac)"

definition corr_yPct :: "nat \<Rightarrow> nat \<Rightarrow> nat \<Rightarrow> nat \<Rightarrow> real" where
  "corr_yPct modal investors n i =
     (let inv = corr_inv investors n i;
          totalDana' = inv * real modal
      in 8 * (totalDana' / trxHarianBEI))"

function corrPoints_loop :: "nat \<Rightarrow> nat \<Rightarrow> nat \<Rightarrow> nat \<Rightarrow> point list \<Rightarrow> point list" where
  "corrPoints_loop modal investors n i pts =
     (if i \<le> n
      then corrPoints_loop modal investors n (Suc i)
             (pts @ [\<lparr>x = corr_inv investors n i,
                      y = max 0 (corr_yPct modal investors n i)\<rparr>])
      else pts)"
  by pat_completeness auto
termination
  by (relation "measure (\<lambda>(modal, investors, n, i, pts). Suc n - i)") auto

definition corrPoints :: "nat \<Rightarrow> nat \<Rightarrow> point list" where
  "corrPoints modal investors =
     (if modal = 0 \<or> investors = 0 then [] else corrPoints_loop modal investors 10 1 [])"

subsection \<open>The inflation block\<close>

text \<open>The constants \<^verbatim>\<open>k\<close> and \<^verbatim>\<open>inflasiAwal\<close> of the component.\<close>

definition k_coef :: real where
  "k_coef = 0.05"

definition inflasiAwal :: real where
  "inflasiAwal = 2.65"

text \<open>\<^verbatim>\<open>totalDana = modalValue * investorCount\<close>, then \<^verbatim>\<open>totalDanaTriliun\<close>.\<close>

definition totalDanaTriliun :: "nat \<Rightarrow> nat \<Rightarrow> real" where
  "totalDanaTriliun modal investors =
     (let totalDana' = real modal * real investors in totalDana' / 1000000000000)"

definition ratioDanaPdb :: "real \<Rightarrow> nat \<Rightarrow> nat \<Rightarrow> real" where
  "ratioDanaPdb pdb modal investors =
     (if pdb > 0 then totalDanaTriliun modal investors / pdb else 0)"

definition tambahanInflasi :: "real \<Rightarrow> real \<Rightarrow> nat \<Rightarrow> nat \<Rightarrow> real" where
  "tambahanInflasi porsiProduktif pdb modal investors =
     k_coef * (1 - porsiProduktif) * ratioDanaPdb pdb modal investors * 100"

definition inflasiSimulasi :: "real \<Rightarrow> real \<Rightarrow> nat \<Rightarrow> nat \<Rightarrow> real" where
  "inflasiSimulasi porsiProduktif pdb modal investors =
     inflasiAwal + tambahanInflasi porsiProduktif pdb modal investors"

subsection \<open>Evaluation in binary64\<close>









subsection \<open>The state and the entry point\<close>

text \<open>The part of the component's state that \<^verbatim>\<open>calcAll\<close> reads and writes.\<close>

record app_state =
  investment :: string
  modal :: nat
  months :: nat
  investors :: nat
  adj :: adj_state
  result :: "scenario_result option"
  impact :: "impact_result option"

text \<open>The guard \<^verbatim>\<open>if (!r || !modal || !months) return\<close>: of the values of \<^verbatim>\<open>r\<close> only
  \<^verbatim>\<open>null\<close> is falsy.\<close>

definition calcAll :: "app_state \<Rightarrow> app_state" where
  "calcAll st =
     (case adjustedRatesFor (adj st) (investment st) of
        Null \<Rightarrow> st
      | NaN_rates \<Rightarrow>
          if modal st = 0 \<or> months st = 0 then st
          else st\<lparr>result := Some calcAll_result_NaN,
                  impact := Some (calcAll_impact (investors st) (modal st))\<rparr>
      | Rates r \<Rightarrow>
          if modal st = 0 \<or> months st = 0 then st
          else st\<lparr>result := Some (calcAll_result r (modal st) (months st)),
                  impact := Some (calcAll_impact (investors st) (modal st))\<rparr>)"

section \<open>Properties\<close>

subsection \<open>Math.pow and the projection\<close>

lemma Math_pow_nat: "Math_pow b (real n) = Some (b ^ n)"
proof -
  consider "0 < b" | "b = 0" | "b < 0" by linarith
  then show ?thesis
  proof cases
    case 1
    then show ?thesis by (simp add: Math_pow_def powr_realpow)
  next
    case 2
    then show ?thesis by (cases n) (simp_all add: Math_pow_def)
  next
    case 3
    then show ?thesis by (simp add: Math_pow_def)
  qed
qed

lemma Math_pow_12: "Math_pow b 12 = Some (b ^ 12)"
  using Math_pow_nat [of b 12] by simp

lemma grow_eq: "grow m n rate = Some (real m * (1 + rate) ^ n)"
  by (simp add: grow_def Math_pow_nat)

lemma root_of_power:
  assumes "0 < b" and "0 < n"
  shows "(b ^ n) powr (1 / real n) = b"
proof -
  have "(b ^ n) powr (1 / real n) = (b powr real n) powr (1 / real n)"
    using assms by (simp add: powr_realpow)
  also have "\<dots> = b powr (real n * (1 / real n))"
    by (simp only: powr_powr)
  also have "\<dots> = b"
    using assms by simp
  finally show ?thesis .
qed

lemma Math_pow_root:
  assumes "0 < b" and "0 < n"
  shows "Math_pow (b ^ n) (1 / real n) = Some b"
  using assms by (simp add: Math_pow_def root_of_power)

lemma values_eq:
  "optV (calcAll_result r m n) = Some (real m * (1 + opt r) ^ n)"
  "modV (calcAll_result r m n) = Some (real m * (1 + mod_r r) ^ n)"
  "pesV (calcAll_result r m n) = Some (real m * (1 + pes r) ^ n)"
  by (simp_all add: calcAll_result_def Let_def grow_eq)

lemma monthly_eq:
  assumes "0 < m" and "1 \<le> n" and "- 1 < mod_r r"
  shows "monthlyModeratePct (calcAll_result r m n) = Some (mod_r r * 100)"
proof -
  have q: "real m * (1 + mod_r r) ^ n / real m = (1 + mod_r r) ^ n"
    using assms by simp
  have "Math_pow ((1 + mod_r r) ^ n) (1 / real n) = Some (1 + mod_r r)"
    using assms by (intro Math_pow_root) auto
  then show ?thesis
    by (simp add: calcAll_result_def Let_def grow_eq q)
qed

lemma annual_eq:
  "annualModerate (calcAll_result r m n) = Some (((1 + mod_r r) ^ 12 - 1) * 100)"
  by (simp add: calcAll_result_def Let_def Math_pow_12)

lemma calcAll_ok:
  assumes "adjustedRatesFor (adj st) (investment st) = Rates r"
    and "modal st \<noteq> 0" and "months st \<noteq> 0"
  shows "calcAll st = st\<lparr>result := Some (calcAll_result r (modal st) (months st)),
                         impact := Some (calcAll_impact (investors st) (modal st))\<rparr>"
  using assms by (simp add: calcAll_def)


subsection \<open>The rate table\<close>

lemma instruments_iff:
  "type \<in> set instruments \<longleftrightarrow>
     type = ''saham'' \<or> type = ''obligasi'' \<or> type = ''deposito'' \<or>
     type = ''emas'' \<or> type = ''reksadana''"
  unfolding instruments_def by simp

lemma base_None_iff: "base type = None \<longleftrightarrow> type \<notin> set instruments"
  by (simp add: base_def instruments_def)

lemma base_lookup_Own: "base type = Some b \<Longrightarrow> base_lookup type = Own b"
  by (simp add: base_lookup_def)

lemma base_lookup_Undefined:
  assumes "type \<notin> set instruments" and "type \<notin> set Object_prototype_names"
  shows "base_lookup type = Undefined"
  using assms base_None_iff [of type] by (simp add: base_lookup_def)

lemma adjustedRatesFor_Null:
  assumes "type \<notin> set instruments" and "type \<notin> set Object_prototype_names"
  shows "adjustedRatesFor a type = Null"
  by (simp add: adjustedRatesFor_def base_lookup_Undefined [OF assms])

lemma calcAll_unchanged:
  assumes "(investment st \<notin> set instruments \<and> investment st \<notin> set Object_prototype_names)
      \<or> modal st = 0 \<or> months st = 0"
  shows "calcAll st = st"
  using assms adjustedRatesFor_Null [of "investment st" "adj st"]
  by (auto simp: calcAll_def split: adjusted.splits)

lemma adjustedRatesFor_spec_d:
  assumes "base type = Some b"
  shows "adjustedRatesFor a type =
    Rates \<lparr>opt = opt b + spec_d a type, mod_r = mod_r b + spec_d a type,
          pes = pes b + spec_d a type * 0.5\<rparr>"
proof -
  have "type \<in> set instruments"
    using assms base_None_iff [of type] by auto
  then have "type = ''saham'' \<or> type = ''obligasi'' \<or> type = ''deposito'' \<or>
     type = ''emas'' \<or> type = ''reksadana''"
    by (simp only: instruments_iff)
  then show ?thesis
    using assms
    by (elim disjE)
      (simp_all add: adjustedRatesFor_def base_lookup_def Let_def inflasiUp_block_def
        biDown_block_def ihsgUp_block_def spec_d_def spec_active_def spec_delta_def)
qed




subsection \<open>The correlation curve\<close>

lemma corrPoints_loop_eq:
  "corrPoints_loop m iv n i pts =
     pts @ map (\<lambda>j. \<lparr>x = corr_inv iv n j, y = max 0 (corr_yPct m iv n j)\<rparr>) [i..<Suc n]"
proof (induction m iv n i pts rule: corrPoints_loop.induct)
  case (1 m iv n i pts)
  show ?case
  proof (cases "i \<le> n")
    case True
    then have "[i..<Suc n] = i # [Suc i..<Suc n]"
      by (simp add: upt_conv_Cons)
    with True "1" show ?thesis
      by (subst corrPoints_loop.simps) simp
  next
    case False
    then show ?thesis
      by (subst corrPoints_loop.simps) simp
  qed
qed

lemma corrPoints_eq:
  assumes "0 < m" and "0 < iv"
  shows "corrPoints m iv =
     map (\<lambda>j. \<lparr>x = corr_inv iv 10 j, y = max 0 (corr_yPct m iv 10 j)\<rparr>) [1..<11]"
proof -
  have s: "Suc 10 = 11"
    by simp
  have "corrPoints m iv = corrPoints_loop m iv 10 1 []"
    using assms by (simp add: corrPoints_def)
  then show ?thesis
    by (simp only: corrPoints_loop_eq s append_Nil)
qed

lemma corr_yPct_pos:
  assumes "0 < m" and "0 < iv" and "0 < i"
  shows "0 < corr_yPct m iv 10 i"
  using assms by (simp add: corr_yPct_def corr_inv_def Let_def trxHarianBEI_def)

lemma corr_yPct_mono:
  assumes "i \<le> j"
  shows "corr_yPct m iv 10 i \<le> corr_yPct m iv 10 j"
proof -
  have "real iv * (real i / 10) * real m \<le> real iv * (real j / 10) * real m"
    using assms by (intro mult_right_mono mult_left_mono) simp_all
  then show ?thesis
    by (simp add: corr_yPct_def corr_inv_def Let_def trxHarianBEI_def divide_right_mono)
qed

lemma corr_inv_le_iff:
  assumes "0 < iv"
  shows "corr_inv iv 10 i \<le> corr_inv iv 10 j \<longleftrightarrow> i \<le> j"
  using assms by (simp add: corr_inv_def Let_def)

subsection \<open>Rounding to binary64\<close>

















section \<open>The claims\<close>

text \<open>
  C1. When the guard of \<^verbatim>\<open>calcAll\<close> passes (the adjusted rates exist, the principal is
  positive and the duration is at least one month), the stored result holds, for each of
  the three scenarios, the value principal times (1 + rate) to the power of the duration;
  for a duration of one month this is principal times (1 + rate).
\<close>

theorem calcAll_scenario_values:
  assumes "adjustedRatesFor (adj st) (investment st) = Rates r"
    and "0 < modal st" and "1 \<le> months st"
  shows "\<exists>res. result (calcAll st) = Some res \<and>
           optV res = Some (real (modal st) * (1 + opt r) ^ months st) \<and>
           modV res = Some (real (modal st) * (1 + mod_r r) ^ months st) \<and>
           pesV res = Some (real (modal st) * (1 + pes r) ^ months st) \<and>
           (months st = 1 \<longrightarrow>
              optV res = Some (real (modal st) * (1 + opt r)) \<and>
              modV res = Some (real (modal st) * (1 + mod_r r)) \<and>
              pesV res = Some (real (modal st) * (1 + pes r)))"
proof -
  have "result (calcAll st) = Some (calcAll_result r (modal st) (months st))"
    using assms by (simp add: calcAll_ok)
  then show ?thesis
    by (simp add: values_eq)
qed

text \<open>The first end-to-end example of the specification: saham, 1,000,000 over 12 months,
  no toggle.\<close>

theorem calcAll_scenario_values_witness:
  "\<exists>res. result (calcAll \<lparr>investment = ''saham'', modal = 1000000, months = 12,
             investors = 18000000,
             adj = \<lparr>inflasiUp = False, biDown = False, ihsgUp = False\<rparr>,
             result = None, impact = None\<rparr>) = Some res \<and>
         optV res = Some (1000000 * 1.015 ^ 12) \<and>
         modV res = Some (1000000 * 1.008 ^ 12) \<and>
         pesV res = Some (1000000 * 0.99 ^ 12)"
proof -
  let ?st = "\<lparr>investment = ''saham'', modal = 1000000, months = 12,
             investors = 18000000,
             adj = \<lparr>inflasiUp = False, biDown = False, ihsgUp = False\<rparr>,
             result = None, impact = None\<rparr>"
  let ?r = "\<lparr>opt = 0.015, mod_r = 0.008, pes = - 0.01\<rparr>"
  have h1: "adjustedRatesFor (adj ?st) (investment ?st) = Rates ?r"
    by (simp add: adjustedRatesFor_def base_lookup_def base_def)
  have h2: "0 < modal ?st" and h3: "1 \<le> months ?st"
    by simp_all
  show ?thesis
    using calcAll_scenario_values [OF h1 h2 h3] by simp
qed

text \<open>
  C2. For each of the five instruments and every setting of the three toggles,
  \<^verbatim>\<open>adjustedRatesFor\<close> returns the base rates shifted by d (optimistic and moderate) and
  by d times 0.5 (pessimistic), where d is the sum of the table's deltas over the active
  toggles. Hence the pessimistic shift is half the moderate shift, and with all toggles
  off the result is the base triple.
\<close>

theorem adjustedRatesFor_table:
  assumes "type \<in> set instruments"
  shows "\<exists>b r. base type = Some b \<and> adjustedRatesFor a type = Rates r \<and>
           opt r = opt b + spec_d a type \<and>
           mod_r r = mod_r b + spec_d a type \<and>
           pes r = pes b + spec_d a type * 0.5 \<and>
           pes r - pes b = 0.5 * (mod_r r - mod_r b) \<and>
           (\<not> inflasiUp a \<and> \<not> biDown a \<and> \<not> ihsgUp a \<longrightarrow> r = b)"
proof -
  obtain b where b: "base type = Some b"
    using assms base_None_iff [of type] by auto
  have off: "\<not> inflasiUp a \<and> \<not> biDown a \<and> \<not> ihsgUp a \<longrightarrow> spec_d a type = 0"
    by (simp add: spec_d_def spec_active_def)
  show ?thesis
    using b off by (simp add: adjustedRatesFor_spec_d [OF b])
qed

text \<open>The second end-to-end example of the specification: saham with the inflation toggle
  on has the moderate rate 0.006.\<close>

theorem adjustedRatesFor_table_witness:
  "''saham'' \<in> set instruments \<and>
   adjustedRatesFor \<lparr>inflasiUp = True, biDown = False, ihsgUp = False\<rparr> ''saham''
     = Rates \<lparr>opt = 0.013, mod_r = 0.006, pes = - 0.011\<rparr>"
proof -
  let ?a = "\<lparr>inflasiUp = True, biDown = False, ihsgUp = False\<rparr>"
  have h: "''saham'' \<in> set instruments"
    by (simp add: instruments_def)
  have d: "spec_d ?a ''saham'' = - 0.002"
    by (simp add: spec_d_def spec_active_def spec_delta_def)
  have b: "base ''saham'' = Some \<lparr>opt = 0.015, mod_r = 0.008, pes = - 0.01\<rparr>"
    by (simp add: base_def)
  show ?thesis
    using h adjustedRatesFor_table [OF h, of ?a] by (auto simp: d b)
qed

text \<open>
  C3. The impact object of \<^verbatim>\<open>calcAll\<close> holds the pooled funds principal times investor
  count and the percentage 8 times (pooled funds / daily turnover), the turnover being
  the constant 25,020,000,000,000; it is what \<^verbatim>\<open>calcAll\<close> stores when its guard passes.
  The percentage has no upper bound: every bound is exceeded at some positive principal
  and investor count.
\<close>

theorem calcAll_impact_uncapped:
  "totalDana (calcAll_impact iv m) = real m * real iv \<and>
   impactPct (calcAll_impact iv m) = 8 * (real m * real iv / trxHarianBEI) \<and>
   trxHarianBEI = 25020000000000 \<and>
   (adjustedRatesFor (adj st) (investment st) = Rates r \<and> 0 < modal st \<and> 1 \<le> months st \<longrightarrow>
      impact (calcAll st) = Some (calcAll_impact (investors st) (modal st))) \<and>
   (\<forall>B. \<exists>m' iv'. 0 < m' \<and> 0 < iv' \<and> B < impactPct (calcAll_impact iv' m'))"
proof -
  have "\<exists>m' iv'. 0 < m' \<and> 0 < iv' \<and> B < impactPct (calcAll_impact iv' m')" for B
  proof -
    obtain k :: nat where k: "B * trxHarianBEI < real k"
      using reals_Archimedean2 by blast
    have "B < 8 * (real (Suc k) * real (1::nat) / trxHarianBEI)"
      using k by (simp add: trxHarianBEI_def field_simps)
    then have "B < impactPct (calcAll_impact (Suc k) 1)"
      by (simp add: calcAll_impact_def Let_def)
    then show ?thesis
      by (intro exI [of _ 1] exI [of _ "Suc k"]) simp
  qed
  moreover have "impact (calcAll st) = Some (calcAll_impact (investors st) (modal st))"
    if "adjustedRatesFor (adj st) (investment st) = Rates r \<and> 0 < modal st \<and> 1 \<le> months st"
    using that by (simp add: calcAll_ok)
  ultimately show ?thesis
    by (simp add: calcAll_impact_def Let_def trxHarianBEI_def mult.commute)
qed

text \<open>The third end-to-end example of the specification: 1,000,000 from each of
  18,000,000 investors.\<close>

theorem calcAll_impact_uncapped_witness:
  "impact (calcAll \<lparr>investment = ''saham'', modal = 1000000, months = 12,
             investors = 18000000,
             adj = \<lparr>inflasiUp = False, biDown = False, ihsgUp = False\<rparr>,
             result = None, impact = None\<rparr>)
     = Some \<lparr>totalDana = 18000000000000,
             impactPct = 8 * (18000000000000 / 25020000000000)\<rparr>"
proof -
  let ?st = "\<lparr>investment = ''saham'', modal = 1000000, months = 12,
             investors = 18000000,
             adj = \<lparr>inflasiUp = False, biDown = False, ihsgUp = False\<rparr>,
             result = None, impact = None\<rparr>"
  let ?r = "\<lparr>opt = 0.015, mod_r = 0.008, pes = - 0.01\<rparr>"
  have h: "adjustedRatesFor (adj ?st) (investment ?st) = Rates ?r \<and> 0 < modal ?st \<and>
      1 \<le> months ?st"
    by (simp add: adjustedRatesFor_def base_lookup_def base_def)
  have "impact (calcAll ?st) = Some (calcAll_impact (investors ?st) (modal ?st))"
    using h calcAll_impact_uncapped [of _ _ ?st ?r] by blast
  then show ?thesis
    by (simp add: calcAll_impact_def trxHarianBEI_def)
qed

text \<open>
  C4. The inflation block gives a value for every input: the ratio to GDP is
  (principal times investor count / 10^12) / GDP for a positive GDP and 0 otherwise; the
  additional inflation is k times (1 - productive share) times the ratio times 100, with
  k = 0.05; the simulated inflation is the baseline 2.65 plus the additional inflation.
  With a GDP that is not positive the additional inflation is 0 and the simulated
  inflation is the baseline.
\<close>

theorem inflasi_estimator:
  "ratioDanaPdb pdb m iv = (if 0 < pdb then (real m * real iv / 10 ^ 12) / pdb else 0) \<and>
   tambahanInflasi ps pdb m iv = k_coef * (1 - ps) * ratioDanaPdb pdb m iv * 100 \<and>
   inflasiSimulasi ps pdb m iv = inflasiAwal + tambahanInflasi ps pdb m iv \<and>
   k_coef = 0.05 \<and> inflasiAwal = 2.65 \<and>
   (pdb \<le> 0 \<longrightarrow> ratioDanaPdb pdb m iv = 0 \<and> tambahanInflasi ps pdb m iv = 0 \<and>
      inflasiSimulasi ps pdb m iv = inflasiAwal)"
  by (simp add: ratioDanaPdb_def tambahanInflasi_def inflasiSimulasi_def totalDanaTriliun_def
      Let_def k_coef_def inflasiAwal_def)

text \<open>A GDP of zero, and the fourth end-to-end example of the specification.\<close>

theorem inflasi_estimator_witness:
  "tambahanInflasi 0.7 0 1000000 18000000 = 0 \<and>
   inflasiSimulasi 0.7 0 1000000 18000000 = 2.65 \<and>
   tambahanInflasi 0.7 20000 1000000 18000000 = 0.00135"
proof -
  have z: "(0::real) \<le> 0"
    by simp
  note t0 = inflasi_estimator [of 0 1000000 18000000 "0.7"]
  note t1 = inflasi_estimator [of 20000 1000000 18000000 "0.7"]
  have a: "tambahanInflasi 0.7 0 1000000 18000000 = 0"
    and b: "inflasiSimulasi 0.7 0 1000000 18000000 = inflasiAwal"
    and c: "inflasiAwal = 2.65"
    using t0 z by blast+
  have d: "tambahanInflasi 0.7 20000 1000000 18000000 =
      k_coef * (1 - 0.7) * ratioDanaPdb 20000 1000000 18000000 * 100"
    and e: "k_coef = 0.05"
    and f: "ratioDanaPdb 20000 1000000 18000000 =
      (if (0::real) < 20000 then (real 1000000 * real 18000000 / 10 ^ 12) / 20000 else 0)"
    using t1 by blast+
  show ?thesis
    by (simp add: a b c d e f)
qed


text \<open>
  C6. When the guard of \<^verbatim>\<open>calcAll\<close> passes, the stored annualised moderate rate is
  ((1 + adjusted moderate rate) to the power 12, minus 1) times 100; a second call that
  differs only in the duration stores the same annualised rate.
\<close>

theorem annualModerate_independent_of_months:
  assumes "adjustedRatesFor (adj st) (investment st) = Rates r"
    and "0 < modal st" and "1 \<le> months st" and "1 \<le> n'"
  shows "\<exists>res res'. result (calcAll st) = Some res \<and>
           result (calcAll (st\<lparr>months := n'\<rparr>)) = Some res' \<and>
           annualModerate res = Some (((1 + mod_r r) ^ 12 - 1) * 100) \<and>
           annualModerate res' = annualModerate res"
proof -
  have "result (calcAll st) = Some (calcAll_result r (modal st) (months st))"
    using assms by (simp add: calcAll_ok)
  moreover have "result (calcAll (st\<lparr>months := n'\<rparr>)) = Some (calcAll_result r (modal st) n')"
    using assms by (simp add: calcAll_ok)
  ultimately show ?thesis
    by (simp add: annual_eq)
qed

text \<open>Emas with the inflation toggle on (moderate rate 0.005), over 6 and over 36 months.\<close>

theorem annualModerate_independent_of_months_witness:
  "\<exists>res res'.
     result (calcAll \<lparr>investment = ''emas'', modal = 500000, months = 6,
             investors = 18000000,
             adj = \<lparr>inflasiUp = True, biDown = False, ihsgUp = False\<rparr>,
             result = None, impact = None\<rparr>) = Some res \<and>
     result (calcAll \<lparr>investment = ''emas'', modal = 500000, months = 36,
             investors = 18000000,
             adj = \<lparr>inflasiUp = True, biDown = False, ihsgUp = False\<rparr>,
             result = None, impact = None\<rparr>) = Some res' \<and>
     annualModerate res = Some ((1.005 ^ 12 - 1) * 100) \<and>
     annualModerate res' = annualModerate res"
proof -
  let ?st = "\<lparr>investment = ''emas'', modal = 500000, months = 6,
             investors = 18000000,
             adj = \<lparr>inflasiUp = True, biDown = False, ihsgUp = False\<rparr>,
             result = None, impact = None\<rparr>"
  let ?r = "\<lparr>opt = 0.007, mod_r = 0.005, pes = 0.0007\<rparr>"
  have h1: "adjustedRatesFor (adj ?st) (investment ?st) = Rates ?r"
    by (simp add: adjustedRatesFor_def base_lookup_def base_def inflasiUp_block_def)
  have h2: "0 < modal ?st" and h3: "1 \<le> months ?st" and h4: "1 \<le> (36::nat)"
    by simp_all
  show ?thesis
    using annualModerate_independent_of_months [OF h1 h2 h3 h4] by simp
qed

text \<open>
  C7. For a positive principal, a duration of at least one month and a moderate rate r
  above -1, the moderate value v is finite, the stored monthly moderate percentage is
  ((v / principal) to the power 1/duration, minus 1) times 100, and this equals r times 100.
\<close>

theorem monthlyModeratePct_roundtrip:
  assumes "0 < m" and "1 \<le> n" and "- 1 < mod_r r"
  shows "\<exists>v. modV (calcAll_result r m n) = Some v \<and>
           v = real m * (1 + mod_r r) ^ n \<and>
           monthlyModeratePct (calcAll_result r m n) =
             Some (((v / real m) powr (1 / real n) - 1) * 100) \<and>
           ((v / real m) powr (1 / real n) - 1) * 100 = mod_r r * 100"
proof -
  have q: "real m * (1 + mod_r r) ^ n / real m = (1 + mod_r r) ^ n"
    using assms by simp
  have "((1 + mod_r r) ^ n) powr (1 / real n) = 1 + mod_r r"
    using assms by (intro root_of_power) simp_all
  then show ?thesis
    using assms by (simp add: values_eq monthly_eq q)
qed

theorem monthlyModeratePct_roundtrip_witness:
  "monthlyModeratePct (calcAll_result \<lparr>opt = 0.015, mod_r = 0.008, pes = - 0.01\<rparr> 1000000 12)
     = Some (0.008 * 100)"
proof -
  let ?r = "\<lparr>opt = 0.015, mod_r = 0.008, pes = - 0.01\<rparr>"
  have h1: "0 < (1000000::nat)" and h2: "1 \<le> (12::nat)" and h3: "- 1 < mod_r ?r"
    by simp_all
  show ?thesis
    using monthlyModeratePct_roundtrip [OF h1 h2 h3] by simp
qed




text \<open>
  C9. The curve is empty when the principal or the investor count is zero. With both
  positive it has exactly ten points, whose x-coordinates are the investor count times
  1/10, 2/10, ..., 10/10 in this order, and a point with a larger or equal x-coordinate
  has a larger or equal y-coordinate.
\<close>

theorem corrPoints_curve:
  "(m = 0 \<or> iv = 0 \<longrightarrow> corrPoints m iv = []) \<and>
   (0 < m \<and> 0 < iv \<longrightarrow>
      length (corrPoints m iv) = 10 \<and>
      map x (corrPoints m iv) = map (\<lambda>i. real iv * (real i / 10)) [1..<11] \<and>
      (\<forall>j<10. \<forall>k<10. x (corrPoints m iv ! j) \<le> x (corrPoints m iv ! k) \<longrightarrow>
                        y (corrPoints m iv ! j) \<le> y (corrPoints m iv ! k)))"
proof (intro conjI impI)
  assume "m = 0 \<or> iv = 0"
  then show "corrPoints m iv = []"
    by (auto simp: corrPoints_def)
next
  assume "0 < m \<and> 0 < iv"
  then show "length (corrPoints m iv) = 10"
    by (simp add: corrPoints_eq)
next
  assume "0 < m \<and> 0 < iv"
  then show "map x (corrPoints m iv) = map (\<lambda>i. real iv * (real i / 10)) [1..<11]"
    by (simp add: corrPoints_eq corr_inv_def Let_def comp_def)
next
  assume pos: "0 < m \<and> 0 < iv"
  show "\<forall>j<10. \<forall>k<10. x (corrPoints m iv ! j) \<le> x (corrPoints m iv ! k) \<longrightarrow>
                        y (corrPoints m iv ! j) \<le> y (corrPoints m iv ! k)"
  proof (intro allI impI)
    fix j k :: nat
    assume j: "j < 10" and k: "k < 10"
      and le: "x (corrPoints m iv ! j) \<le> x (corrPoints m iv ! k)"
    have nth: "corrPoints m iv ! i =
        \<lparr>x = corr_inv iv 10 (Suc i), y = max 0 (corr_yPct m iv 10 (Suc i))\<rparr>"
      if "i < 10" for i
    proof -
      have "[1..<11] ! i = Suc i" and "i < length [1..<11]"
        using that by simp_all
      then show ?thesis
        using pos by (simp only: corrPoints_eq nth_map)
    qed
    from pos have iv: "0 < iv"
      by simp
    from le have "corr_inv iv 10 (Suc j) \<le> corr_inv iv 10 (Suc k)"
      by (simp add: nth [OF j] nth [OF k])
    then have "Suc j \<le> Suc k"
      by (simp only: corr_inv_le_iff [OF iv])
    then have "corr_yPct m iv 10 (Suc j) \<le> corr_yPct m iv 10 (Suc k)"
      by (rule corr_yPct_mono)
    then show "y (corrPoints m iv ! j) \<le> y (corrPoints m iv ! k)"
      by (simp only: nth [OF j] nth [OF k]) (simp add: max.coboundedI2)
  qed
qed

text \<open>The default investor count with a principal of zero and of 1,000,000.\<close>

theorem corrPoints_curve_witness:
  "corrPoints 0 18000000 = [] \<and> length (corrPoints 1000000 18000000) = 10 \<and>
   map x (corrPoints 1000000 18000000) =
     [1800000, 3600000, 5400000, 7200000, 9000000, 10800000, 12600000, 14400000,
      16200000, 18000000]"
proof -
  have h: "(0::nat) < 1000000 \<and> (0::nat) < 18000000"
    by simp
  have u: "[Suc 0..<11] = [1, 2, 3, 4, 5, 6, 7, 8, 9, 10 :: nat]"
    by (simp add: upt_rec)
  show ?thesis
    using h corrPoints_curve [of 0 18000000] corrPoints_curve [of 1000000 18000000]
    by (simp add: u)
qed

text \<open>
  C10. With a positive principal and a positive investor count, every one of the ten
  sampled percentages is strictly positive before the clamp, the clamp returns it
  unchanged, and the curve is the list of the unclamped points.
\<close>

theorem corrPoints_clamp_unreachable:
  assumes "0 < m" and "0 < iv"
  shows "(\<forall>i\<in>{1..10}. 0 < corr_yPct m iv 10 i \<and>
            max 0 (corr_yPct m iv 10 i) = corr_yPct m iv 10 i) \<and>
         corrPoints m iv =
           map (\<lambda>i. \<lparr>x = corr_inv iv 10 i, y = corr_yPct m iv 10 i\<rparr>) [1..<11]"
proof -
  have p: "0 < corr_yPct m iv 10 i" if "i \<in> {1..10}" for i
    using that assms by (intro corr_yPct_pos) simp_all
  then have c: "max 0 (corr_yPct m iv 10 i) = corr_yPct m iv 10 i" if "i \<in> {1..10}" for i
    using that by (simp add: max_def less_imp_le)
  have "map (\<lambda>j. \<lparr>x = corr_inv iv 10 j, y = max 0 (corr_yPct m iv 10 j)\<rparr>) [1..<11] =
        map (\<lambda>i. \<lparr>x = corr_inv iv 10 i, y = corr_yPct m iv 10 i\<rparr>) [1..<11]"
    by (rule map_cong) (simp_all add: c)
  with p c show ?thesis
    by (simp only: corrPoints_eq [OF assms]) blast
qed

text \<open>The third end-to-end example of the specification, at the last sample.\<close>

theorem corrPoints_clamp_unreachable_witness:
  "0 < corr_yPct 1000000 18000000 10 10 \<and>
   corr_yPct 1000000 18000000 10 10 = 8 * (18000000000000 / 25020000000000)"
proof -
  have h1: "(0::nat) < 1000000" and h2: "(0::nat) < 18000000"
    by simp_all
  have i: "(10::nat) \<in> {1..10}"
    by simp
  have "0 < corr_yPct 1000000 18000000 10 10"
    using corrPoints_clamp_unreachable [OF h1 h2] i by blast
  then show ?thesis
    by (simp add: corr_yPct_def corr_inv_def trxHarianBEI_def)
qed

end
